theory Spec2Isabelle
  imports Main
begin

section \<open>JavaScript strings\<close>

text \<open>
  Strings of the source are modelled as \<^typ>\<open>string\<close>, one \<^typ>\<open>char\<close> per code unit
  below 256. An index that is out of range reads \<open>undefined\<close>, modelled as \<open>None\<close>.
\<close>

definition char_at :: "string \<Rightarrow> int \<Rightarrow> char option" where
  "char_at s i = (if 0 \<le> i \<and> i < int (length s) then Some (s ! nat i) else None)"

text \<open>\<open>s.slice(1)\<close> and \<open>s.substring(1)\<close>.\<close>

definition slice_from :: "nat \<Rightarrow> string \<Rightarrow> string" where
  "slice_from n s = drop n s"

text \<open>\<open>s.substring(a, b)\<close>: both indices are clamped to the length and swapped when \<open>a > b\<close>.\<close>

definition substring :: "string \<Rightarrow> nat \<Rightarrow> nat \<Rightarrow> string" where
  "substring s a b = take (max a b - min a b) (drop (min a b) s)"

text \<open>The white space and line terminators below code unit 256, removed by \<open>trim\<close>.\<close>

definition is_js_space :: "char \<Rightarrow> bool" where
  "is_js_space c = (of_char c \<in> {9, 10, 11, 12, 13, 32, 160 :: nat})"

definition trim :: "string \<Rightarrow> string" where
  "trim s = rev (dropWhile is_js_space (rev (dropWhile is_js_space s)))"

text \<open>The test \<open>/^https?:\/\//.test(s)\<close>.\<close>

definition is_fqdn :: "string \<Rightarrow> bool" where
  "is_fqdn s = (take 7 s = ''http://'' \<or> take 8 s = ''https://'')"

text \<open>\<open>s.replace(/\/+/g, "/")\<close>: every run of slashes becomes one slash.\<close>

fun collapse_slashes :: "string \<Rightarrow> string" where
  "collapse_slashes [] = []"
| "collapse_slashes [c] = [c]"
| "collapse_slashes (c # d # cs) =
     (if c = CHR ''/'' \<and> d = CHR ''/'' then collapse_slashes (d # cs)
      else c # collapse_slashes (d # cs))"

text \<open>A value used as a condition: \<open>undefined\<close> and the empty string are falsy.\<close>

definition truthy :: "string option \<Rightarrow> bool" where
  "truthy v = (case v of None \<Rightarrow> False | Some s \<Rightarrow> s \<noteq> [])"

text \<open>The string a field holds where it is read as one; read only where it is truthy.\<close>

definition string_of :: "string option \<Rightarrow> string" where
  "string_of v = (case v of None \<Rightarrow> [] | Some s \<Rightarrow> s)"

text \<open>\<open>a || b || ""\<close> on optional strings: the first truthy operand, else the last one.\<close>

definition or_default :: "string option \<Rightarrow> string option \<Rightarrow> string" where
  "or_default a b =
     (if truthy a then string_of a else if truthy b then string_of b else [])"

text \<open>\<open>s.toLowerCase()\<close> and \<open>s.toUpperCase()\<close> on the letters A to Z and a to z.\<close>

definition lower_char :: "char \<Rightarrow> char" where
  "lower_char c =
     (if 65 \<le> (of_char c :: nat) \<and> (of_char c :: nat) \<le> 90
      then char_of (of_char c + (32 :: nat)) else c)"

definition upper_char :: "char \<Rightarrow> char" where
  "upper_char c =
     (if 97 \<le> (of_char c :: nat) \<and> (of_char c :: nat) \<le> 122
      then char_of (of_char c - (32 :: nat)) else c)"

definition toLowerCase :: "string \<Rightarrow> string" where
  "toLowerCase s = map lower_char s"

definition toUpperCase :: "string \<Rightarrow> string" where
  "toUpperCase s = map upper_char s"

text \<open>\<open>s.split(c)\<close> for a one-character separator: always at least one part.\<close>

fun split_on :: "char \<Rightarrow> string \<Rightarrow> string list" where
  "split_on c [] = [[]]"
| "split_on c (x # xs) =
     (if x = c then [] # split_on c xs
      else (case split_on c xs of [] \<Rightarrow> [[x]] | p # ps \<Rightarrow> (x # p) # ps))"

text \<open>\<open>parts.join(sep)\<close>.\<close>

fun join :: "string \<Rightarrow> string list \<Rightarrow> string" where
  "join sep [] = []"
| "join sep [p] = p"
| "join sep (p # q # ps) = p @ sep @ join sep (q # ps)"

text \<open>The decimal text of a status code, as a template literal prints it.\<close>

fun show_nat :: "nat \<Rightarrow> string" where
  "show_nat n =
     (if n < 10 then [char_of (48 + n)]
      else show_nat (n div 10) @ [char_of (48 + n mod 10)])"

definition show_int :: "int \<Rightarrow> string" where
  "show_int i = (if i < 0 then CHR ''-'' # show_nat (nat (- i)) else show_nat (nat i))"

section \<open>Values passed to the registration functions\<close>

text \<open>
  The arguments of a verb registration are untyped at run time: \<open>extractRouteArguments\<close>
  tells them apart by \<open>typeof\<close> and by their keys. An object is its list of own keys and
  values, in insertion order; a function is known by its identity only.
\<close>

datatype jsval =
    JUndefined
  | JNull
  | JBool bool
  | JNumber int
  | JString string
  | JFunction nat
  | JObject "(string \<times> jsval) list"

fun js_truthy :: "jsval \<Rightarrow> bool" where
  "js_truthy JUndefined = False"
| "js_truthy JNull = False"
| "js_truthy (JBool b) = b"
| "js_truthy (JNumber n) = (n \<noteq> 0)"
| "js_truthy (JString s) = (s \<noteq> [])"
| "js_truthy (JFunction f) = True"
| "js_truthy (JObject kvs) = True"

fun typeof :: "jsval \<Rightarrow> string" where
  "typeof JUndefined = ''undefined''"
| "typeof JNull = ''object''"
| "typeof (JBool b) = ''boolean''"
| "typeof (JNumber n) = ''number''"
| "typeof (JString s) = ''string''"
| "typeof (JFunction f) = ''function''"
| "typeof (JObject kvs) = ''object''"

fun object_keys :: "jsval \<Rightarrow> string list" where
  "object_keys (JObject kvs) = map fst kvs"
| "object_keys v = []"

text \<open>
  The own keys of an object come in the order JavaScript gives them: first the keys that
  are array indices (decimal numerals below \<open>2^32 - 1\<close> without a leading zero), in
  ascending order, then the other keys in the order of their creation.
\<close>

definition index_value :: "string \<Rightarrow> int" where
  "index_value k = foldl (\<lambda>n c. 10 * n + (int (of_char c) - 48)) 0 k"

definition is_array_index :: "string \<Rightarrow> bool" where
  "is_array_index k =
     (k \<noteq> [] \<and> list_all (\<lambda>c. 48 \<le> (of_char c :: nat) \<and> (of_char c :: nat) \<le> 57) k
      \<and> (k = ''0'' \<or> hd k \<noteq> CHR ''0'') \<and> index_value k < 4294967295)"

text \<open>A new key that is an array index goes before the first key that is a greater index or no index.\<close>

fun insert_index :: "(string \<times> jsval) list \<Rightarrow> string \<Rightarrow> jsval \<Rightarrow> (string \<times> jsval) list" where
  "insert_index [] k v = [(k, v)]"
| "insert_index ((k', v') # kvs) k v =
     (if is_array_index k' \<and> index_value k' < index_value k
      then (k', v') # insert_index kvs k v
      else (k, v) # (k', v') # kvs)"

text \<open>
  Assigning one property: an existing key keeps its place; a new key goes among the array
  indices when it is one, and last otherwise.
\<close>

definition set_property :: "(string \<times> jsval) list \<Rightarrow> string \<Rightarrow> jsval \<Rightarrow> (string \<times> jsval) list" where
  "set_property kvs k v =
     (if k \<in> set (map fst kvs) then map (\<lambda>(k', v'). if k' = k then (k, v) else (k', v')) kvs
      else if is_array_index k then insert_index kvs k v
      else kvs @ [(k, v)])"

text \<open>The object literal \<open>{ ...a, ...b }\<close>.\<close>

definition spread :: "(string \<times> jsval) list \<Rightarrow> (string \<times> jsval) list \<Rightarrow> (string \<times> jsval) list" where
  "spread a b = foldl (\<lambda>acc (k, v). set_property acc k v) a b"

definition defaultRouteOptions :: "(string \<times> jsval) list" where
  "defaultRouteOptions = [(''coalesce'', JBool False), (''timing'', JUndefined)]"

text \<open>
  \<open>isOption\<close>: a truthy object with at least one key among those of
  \<open>defaultRouteOptions\<close>. The loop returns at the first such key.
\<close>

definition isOption :: "jsval \<Rightarrow> bool" where
  "isOption option' =
     (if \<not> js_truthy option' \<or> typeof option' \<noteq> ''object'' then False
      else
        (let allOptions = map fst defaultRouteOptions;
             optionKeys = object_keys option'
         in list_ex (\<lambda>key. key \<in> set allOptions) optionKeys))"

text \<open>\<open>extractRouteArguments\<close>: the triple (handler, code, options), later arguments winning.\<close>

definition extractRouteArguments :: "jsval list \<Rightarrow> jsval \<times> jsval \<times> jsval" where
  "extractRouteArguments args =
     foldl (\<lambda>(r0, r1, r2) arg.
              if isOption arg then
                (r0, r1, JObject (spread defaultRouteOptions
                                    (case arg of JObject kvs \<Rightarrow> kvs | _ \<Rightarrow> [])))
              else if typeof arg = ''number'' then (r0, arg, r2)
              else (arg, r1, r2))
           (JUndefined, JUndefined, JObject []) args"

section \<open>Requests, responses and handlers\<close>

type_synonym headers = "(string \<times> string) list"

text \<open>The request value a Mirage handler receives.\<close>

record MirageRequest =
  requestBody :: string
  requestHeaders :: headers
  url :: string
  params :: "(string \<times> string) list"
  queryParams :: "(string \<times> string) list"

text \<open>\<open>[status, headers, body]\<close>; headers and body may be undefined.\<close>

type_synonym MirageRouteHandlerResponse = "int \<times> headers option \<times> string option"

text \<open>
  A handler built by the Mirage server either yields a response or fails (it throws, or its
  promise rejects) with a message.
\<close>

type_synonym RouteHandler = "MirageRequest \<Rightarrow> string + MirageRouteHandlerResponse"

text \<open>
  What a route table stores as \<open>handler\<close>: either the one function
  \<open>playwrightPassthroughHandler\<close> of the instance, or a function returned by
  \<open>registerRouteHandler\<close>. The dispatcher compares by reference with the former, which
  is a comparison of constructors here.
\<close>

datatype handler =
    PlaywrightPassthroughHandler
  | MirageHandler RouteHandler

datatype HTTPVerb = Get | Post | Put | Delete | Patch | Options | Head

fun verb_name :: "HTTPVerb \<Rightarrow> string" where
  "verb_name Get = ''get''"
| "verb_name Post = ''post''"
| "verb_name Put = ''put''"
| "verb_name Delete = ''delete''"
| "verb_name Patch = ''patch''"
| "verb_name Options = ''options''"
| "verb_name Head = ''head''"

text \<open>The part of the Mirage server that the class calls.\<close>

record MirageServer =
  registerRouteHandler :: "HTTPVerb \<Rightarrow> string \<Rightarrow> jsval \<Rightarrow> jsval \<Rightarrow> jsval \<Rightarrow> RouteHandler"
  shouldLog :: bool

text \<open>The intercepted request, as Playwright hands it over.\<close>

record PlaywrightRequest =
  pw_method :: string
  pw_url :: string
  pw_allHeaders :: headers
  pw_postData :: "string option"

text \<open>A page is known by an opaque handle.\<close>

type_synonym Page = nat

text \<open>The fields of \<open>ServerConfig\<close> that the class reads.\<close>

record ServerConfig =
  cfg_page :: "Page option"
  cfg_interceptUrlPattern :: "string option"
  cfg_urlPrefix :: "string option"
  cfg_namespace :: "string option"

datatype error =
    PageMissing
  | LostMirageServer
  | NoRoute string
  | TypeError
  | HandlerFailed string

text \<open>
  The message of each error the class itself throws. A \<open>TypeError\<close> comes from the platform
  (a call on \<open>undefined\<close>, an invalid URL), a handler's failure carries its own message.
\<close>

fun error_message :: "error \<Rightarrow> string" where
  "error_message PageMissing = ''A Playwright Page must be passed in the mirageConfig''"
| "error_message LostMirageServer = ''Lost the mirageServer''"
| "error_message (NoRoute p) = ''No Mirage route registered for '' @ p"
| "error_message TypeError = ''TypeError''"
| "error_message (HandlerFailed m) = m"

text \<open>What the dispatcher does to the outside, in order.\<close>

datatype event =
    ConsoleLog string
  | HandlerCalled MirageRequest
  | RouteContinue
  | RouteFulfill int "headers option" "string option"

section \<open>The route recognizer\<close>

text \<open>
  Modelled from the spec: the class \<open>RouteRecognizer\<close> of the imported package
  \<open>route-recognizer\<close>, whose code is not among the sources. A table is the list of the
  patterns added, each with its handler. A pattern is cut at its slashes into static
  segments, named dynamic segments (\<open>:id\<close>) and wildcard segments (\<open>*rest\<close>, taking the
  remainder of the path). Recognition parses the query component of the path it is given,
  matches the rest against every pattern and orders the candidates by specificity, fewer
  dynamic segments first; no candidate is \<open>None\<close>.
\<close>

type_synonym RouteRecognizer = "(string \<times> handler) list"

datatype segment = Static string | Dynamic string | Star string

definition parse_segment :: "string \<Rightarrow> segment" where
  "parse_segment part =
     (case part of
        [] \<Rightarrow> Static []
      | c # name \<Rightarrow>
          if c = CHR '':'' then Dynamic name
          else if c = CHR ''*'' then Star name
          else Static part)"

definition strip_leading_slash :: "string \<Rightarrow> string" where
  "strip_leading_slash s = (case s of [] \<Rightarrow> [] | c # cs \<Rightarrow> if c = CHR ''/'' then cs else s)"

definition parse_pattern :: "string \<Rightarrow> segment list" where
  "parse_pattern pattern = map parse_segment (split_on CHR ''/'' (strip_leading_slash pattern))"

fun match_segments :: "segment list \<Rightarrow> string list \<Rightarrow> (string \<times> string) list option" where
  "match_segments [] [] = Some []"
| "match_segments [] (x # xs) = None"
| "match_segments (Star name # ps) xs =
     (if ps = [] \<and> join ''/'' xs \<noteq> [] then Some [(name, join ''/'' xs)] else None)"
| "match_segments (p # ps) [] = None"
| "match_segments (Static s # ps) (x # xs) =
     (if s = x then match_segments ps xs else None)"
| "match_segments (Dynamic name # ps) (x # xs) =
     (if x = [] then None
      else map_option (\<lambda>rest. (name, x) # rest) (match_segments ps xs))"

definition dynamic_count :: "segment list \<Rightarrow> nat" where
  "dynamic_count segs = length (filter (\<lambda>s. case s of Static _ \<Rightarrow> False | _ \<Rightarrow> True) segs)"

text \<open>\<open>key=value\<close> pairs separated by \<open>&\<close>; a pair without \<open>=\<close> has the empty value.\<close>

definition parse_pair :: "string \<Rightarrow> string \<times> string" where
  "parse_pair kv = (takeWhile (\<lambda>c. c \<noteq> CHR ''='') kv, drop 1 (dropWhile (\<lambda>c. c \<noteq> CHR ''='') kv))"

definition parseQueryString :: "string \<Rightarrow> (string \<times> string) list" where
  "parseQueryString qs = map parse_pair (filter (\<lambda>kv. kv \<noteq> []) (split_on CHR ''&'' qs))"

definition candidates ::
  "RouteRecognizer \<Rightarrow> string list \<Rightarrow> ((handler \<times> (string \<times> string) list) \<times> nat) list" where
  "candidates table segs =
     concat (map (\<lambda>(pattern, h).
                    case match_segments (parse_pattern pattern) segs of
                      None \<Rightarrow> []
                    | Some ps \<Rightarrow> [((h, ps), dynamic_count (parse_pattern pattern))])
                 table)"

definition recognize ::
  "RouteRecognizer \<Rightarrow> string
     \<Rightarrow> ((handler \<times> (string \<times> string) list) list \<times> (string \<times> string) list) option" where
  "recognize table path =
     (let route = takeWhile (\<lambda>c. c \<noteq> CHR ''?'') path;
          queryString = drop 1 (dropWhile (\<lambda>c. c \<noteq> CHR ''?'') path);
          found = sort_key snd (candidates table (split_on CHR ''/'' (strip_leading_slash route)))
      in if found = [] then None else Some (map fst found, parseQueryString queryString))"

text \<open>\<open>recognizer.add([{ path, handler }])\<close>.\<close>

definition add :: "RouteRecognizer \<Rightarrow> string \<times> handler \<Rightarrow> RouteRecognizer" where
  "add table entry = table @ [entry]"

section \<open>The URL of a request\<close>

text \<open>
  Modelled from the spec: the platform's \<open>URL\<close> class, restricted to what the dispatcher
  reads of it. An absolute URL is a scheme, \<open>://\<close>, an authority, a path up to the first
  \<open>?\<close> or \<open>#\<close> (\<open>/\<close> when empty), and a query up to the first \<open>#\<close>. A string of another
  shape makes \<open>new URL\<close> throw. Percent-encoding and dot segments are left as they are.
\<close>

record URL =
  href :: string
  pathname :: string
  search :: string

fun after_scheme :: "string \<Rightarrow> string option" where
  "after_scheme [] = None"
| "after_scheme (c # cs) =
     (if c = CHR '':'' then (if take 2 cs = ''//'' then Some (drop 2 cs) else None)
      else if c \<in> {CHR ''/'', CHR ''?'', CHR ''#''} then None
      else after_scheme cs)"

definition new_URL :: "string \<Rightarrow> URL option" where
  "new_URL s =
     (if s = [] \<or> hd s = CHR '':'' then None
      else
        (case after_scheme s of
           None \<Rightarrow> None
         | Some rest \<Rightarrow>
             (let afterHost = dropWhile (\<lambda>c. c \<notin> {CHR ''/'', CHR ''?'', CHR ''#''}) rest;
                  path = takeWhile (\<lambda>c. c \<notin> {CHR ''?'', CHR ''#''}) afterHost;
                  afterPath = dropWhile (\<lambda>c. c \<notin> {CHR ''?'', CHR ''#''}) afterHost;
                  query = takeWhile (\<lambda>c. c \<noteq> CHR ''#'') afterPath
              in Some \<lparr>href = s,
                       pathname = (if path = [] then ''/'' else path),
                       search = (if query = ''?'' then [] else query)\<rparr>)))"

section \<open>The class PlaywrightConfig\<close>

text \<open>
  The fields of an instance. \<open>router\<close> holds the keys assigned to it, each a
  verb name with its route table; what a read finds beyond them is said by \<open>router_get\<close>. \<open>verbFns\<close> holds, for each property among
  \<open>get\<close>, \<open>post\<close>, \<open>put\<close>, \<open>delete\<close>, \<open>del\<close>, \<open>patch\<close>, \<open>head\<close> and \<open>options\<close> that
  \<open>create\<close> has assigned, the verb its closure registers under.
  \<open>playwrightHandler_defined\<close> tells whether the dispatcher closure exists, and \<open>routed\<close>
  lists the URL patterns it has been installed for with \<open>page.route\<close>. The field
  \<open>mirageConfig\<close>, which no method reads or writes, is left out.
\<close>

record PlaywrightConfig =
  urlPrefix :: "string option"
  namespace :: "string option"
  timing :: "int option"
  interceptUrlPattern :: string
  page :: "Page option"
  mirageServer :: "MirageServer option"
  router :: "string \<rightharpoonup> RouteRecognizer"
  playwrightHandler_defined :: bool
  routed :: "string list"
  passthroughChecks :: "(PlaywrightRequest \<Rightarrow> bool) list"
  verbFns :: "string \<rightharpoonup> HTTPVerb"

text \<open>The field initialisers of the class.\<close>

definition new_PlaywrightConfig :: PlaywrightConfig where
  "new_PlaywrightConfig =
     \<lparr>urlPrefix = None, namespace = None, timing = None, interceptUrlPattern = ''**'',
      page = None, mirageServer = None, router = Map.empty,
      playwrightHandler_defined = False, routed = [], passthroughChecks = [],
      verbFns = Map.empty\<rparr>"

subsection \<open>config\<close>

definition config :: "PlaywrightConfig \<Rightarrow> ServerConfig \<Rightarrow> PlaywrightConfig" where
  "config this mirageConfig =
     (let this = this\<lparr>urlPrefix := Some (or_default (urlPrefix this) (cfg_urlPrefix mirageConfig))\<rparr>;
          this = this\<lparr>namespace := Some (or_default (namespace this) (cfg_namespace mirageConfig))\<rparr>
      in this)"

subsection \<open>The path composer\<close>

text \<open>
  \<open>_getFullPath(path)\<close>. The eight conditionals on the namespace are kept in the source's
  order, each overwriting the local \<open>namespace\<close> when its test holds.
\<close>

definition getFullPath :: "PlaywrightConfig \<Rightarrow> string \<Rightarrow> string" where
  "getFullPath this path0 =
    (let path = (if char_at path0 0 = Some CHR ''/'' then slice_from 1 path0 else path0);
         fullPath = [];
         urlPrefix' = (if truthy (urlPrefix this) then trim (string_of (urlPrefix this)) else []);
         ns = string_of (namespace this);
         first = char_at ns 0;
         final = char_at ns (int (length ns) - 1);
         sl = Some CHR ''/'';
         namespace' = [];
         namespace' =
           (if truthy (urlPrefix this) \<and> truthy (namespace this) then
              (let n1 = (if first = sl \<and> final = sl
                         then slice_from 1 (substring ns 0 (length ns - 1)) else namespace');
                   n2 = (if first = sl \<and> final \<noteq> sl then slice_from 1 ns else n1);
                   n3 = (if first \<noteq> sl \<and> final = sl
                         then substring ns 0 (length ns - 1) else n2);
                   n4 = (if first \<noteq> sl \<and> final \<noteq> sl then ns else n3)
               in n4)
            else namespace');
         namespace' =
           (if truthy (namespace this) \<and> \<not> truthy (urlPrefix this) then
              (let n1 = (if first = sl \<and> final = sl
                         then substring ns 0 (length ns - 1) else namespace');
                   n2 = (if first = sl \<and> final \<noteq> sl then ns else n1);
                   n3 = (if first \<noteq> sl \<and> final = sl
                         then CHR ''/'' # substring ns 0 (length ns - 1) else n2);
                   n4 = (if first \<noteq> sl \<and> final \<noteq> sl then CHR ''/'' # ns else n3)
               in n4)
            else namespace');
         namespace' = (if \<not> truthy (namespace this) then [] else namespace')
     in if is_fqdn path then fullPath @ path
        else
          (let fullPath =
                 (if length urlPrefix' \<noteq> 0 then
                    fullPath @ (if char_at urlPrefix' (int (length urlPrefix') - 1) = sl
                                then urlPrefix' else urlPrefix' @ ''/'')
                  else fullPath);
               fullPath = fullPath @ namespace';
               fullPath =
                 (if char_at fullPath (int (length fullPath) - 1) \<noteq> sl
                  then fullPath @ ''/'' else fullPath);
               fullPath = fullPath @ path
           in if \<not> is_fqdn fullPath then collapse_slashes (CHR ''/'' # fullPath)
              else fullPath))"

subsection \<open>Reading the router\<close>

text \<open>
  \<open>router\<close> is a plain object, so \<open>this.router[key]\<close> also finds what every object
  inherits: a key that was never assigned reads \<open>undefined\<close>, except for the names of the
  properties of \<open>Object.prototype\<close>, which read as the inherited value. Such a value is no
  recognizer: it has neither \<open>recognize\<close> nor \<open>add\<close>.
\<close>

definition object_prototype_keys :: "string list" where
  "object_prototype_keys =
     [''constructor'', ''__defineGetter__'', ''__defineSetter__'', ''hasOwnProperty'',
      ''__lookupGetter__'', ''__lookupSetter__'', ''isPrototypeOf'', ''propertyIsEnumerable'',
      ''toString'', ''valueOf'', ''__proto__'', ''toLocaleString'']"

datatype router_value = Undefined | Recognizer RouteRecognizer | Inherited

definition router_get :: "PlaywrightConfig \<Rightarrow> string \<Rightarrow> router_value" where
  "router_get this key =
     (case router this key of
        Some table \<Rightarrow> Recognizer table
      | None \<Rightarrow> if key \<in> set object_prototype_keys then Inherited else Undefined)"

subsection \<open>Adding to a verb's table\<close>

text \<open>
  \<open>this.router[verb].add([{ path, handler }])\<close>: a verb without a table makes the call
  throw, since \<open>add\<close> is then read from \<open>undefined\<close>, or is itself undefined on an
  inherited value.
\<close>

definition router_add ::
  "PlaywrightConfig \<Rightarrow> string \<Rightarrow> string \<times> handler \<Rightarrow> PlaywrightConfig \<times> error option" where
  "router_add this verb entry =
     (case router_get this verb of
        Recognizer table \<Rightarrow>
          (this\<lparr>router := (router this)(verb \<mapsto> add table entry)\<rparr>, None)
      | _ \<Rightarrow> (this, Some TypeError))"

subsection \<open>The registration closures\<close>

text \<open>
  The closure that \<open>create\<close> stores under a verb's name (and under its alias): it asks the
  Mirage server for a handler and adds the composed path to the verb's table.
\<close>

definition verb_closure ::
  "HTTPVerb \<Rightarrow> PlaywrightConfig \<Rightarrow> string \<Rightarrow> jsval list \<Rightarrow> PlaywrightConfig \<times> error option" where
  "verb_closure verb this path args =
     (case extractRouteArguments args of
        (rawHandler, customizedCode, options') \<Rightarrow>
          (case mirageServer this of
             None \<Rightarrow> (this, Some LostMirageServer)
           | Some server \<Rightarrow>
               (let h = registerRouteHandler server verb path rawHandler customizedCode options';
                    fullPath = getFullPath this path
                in router_add this (verb_name verb) (fullPath, MirageHandler h))))"

text \<open>Calling \<open>this[name](path, ...args)\<close>; a property never assigned is not callable.\<close>

definition call_verb ::
  "PlaywrightConfig \<Rightarrow> string \<Rightarrow> string \<Rightarrow> jsval list \<Rightarrow> PlaywrightConfig \<times> error option" where
  "call_verb this name path args =
     (case verbFns this name of
        None \<Rightarrow> (this, Some TypeError)
      | Some verb \<Rightarrow> verb_closure verb this path args)"

subsection \<open>create\<close>

text \<open>The verbs of \<open>create\<close>, each with its optional alias.\<close>

definition create_verbs :: "(HTTPVerb \<times> string option) list" where
  "create_verbs =
     [(Get, None), (Post, None), (Put, None), (Delete, Some ''del''),
      (Patch, None), (Head, None), (Options, None)]"

text \<open>One round of \<open>verbs.forEach\<close>: a fresh table, the closure, and the alias if any.\<close>

definition install_verb :: "PlaywrightConfig \<Rightarrow> HTTPVerb \<times> string option \<Rightarrow> PlaywrightConfig" where
  "install_verb this va =
     (case va of
        (verb, alias) \<Rightarrow>
          (let this = this\<lparr>router := (router this)(verb_name verb \<mapsto> [])\<rparr>;
               this = this\<lparr>verbFns := (verbFns this)(verb_name verb \<mapsto> verb)\<rparr>
           in (case alias of
                 None \<Rightarrow> this
               | Some a \<Rightarrow> this\<lparr>verbFns := (verbFns this)(a \<mapsto> verb)\<rparr>)))"

text \<open>
  \<open>create(mirageServer, config)\<close>. The result is the instance as the call leaves it,
  and the error thrown, if any. The copies of the closures stored on the Mirage server
  belong to that object and are not part of the instance.
\<close>

definition create ::
  "PlaywrightConfig \<Rightarrow> MirageServer \<Rightarrow> ServerConfig \<Rightarrow> PlaywrightConfig \<times> error option" where
  "create this server cfg =
     (let this = this\<lparr>mirageServer := Some server\<rparr>;
          this = this\<lparr>interceptUrlPattern :=
                        (case cfg_interceptUrlPattern cfg of
                           Some p \<Rightarrow> p
                         | None \<Rightarrow> interceptUrlPattern this)\<rparr>;
          this = this\<lparr>page := cfg_page cfg\<rparr>
      in if page this = None then (this, Some PageMissing)
         else
           (let this = config this cfg;
                this = foldl install_verb this create_verbs;
                this = this\<lparr>playwrightHandler_defined := True\<rparr>;
                this = this\<lparr>routed := routed this @ [interceptUrlPattern this]\<rparr>
            in (this, None)))"

subsection \<open>passthrough\<close>

text \<open>
  An argument of \<open>passthrough\<close> as it arrives at run time: a path, an array of verbs, or a
  predicate over requests. The declared parameter type admits the first two only.
\<close>

datatype passthrough_arg =
    PathArg string
  | VerbsArg "HTTPVerb list"
  | PredicateArg "PlaywrightRequest \<Rightarrow> bool"

fun is_string_arg :: "passthrough_arg \<Rightarrow> bool" where
  "is_string_arg (PathArg p) = True"
| "is_string_arg a = False"

text \<open>\<open>verbs.forEach\<close> for one composed path, stopping where \<open>add\<close> throws.\<close>

fun add_passthrough ::
  "PlaywrightConfig \<Rightarrow> string \<Rightarrow> HTTPVerb list \<Rightarrow> PlaywrightConfig \<times> error option" where
  "add_passthrough this fullPath [] = (this, None)"
| "add_passthrough this fullPath (verb # verbs) =
     (case router_add this (verb_name verb) (fullPath, PlaywrightPassthroughHandler) of
        (this', None) \<Rightarrow> add_passthrough this' fullPath verbs
      | (this', Some e) \<Rightarrow> (this', Some e))"

text \<open>
  The body of \<open>paths.forEach\<close> for one element. Where an element is not a function,
  \<open>_getFullPath\<close> takes it as a string; an array of verbs reads as its names joined by
  commas there.
\<close>

definition passthrough_path ::
  "PlaywrightConfig \<Rightarrow> HTTPVerb list \<Rightarrow> passthrough_arg \<Rightarrow> PlaywrightConfig \<times> error option" where
  "passthrough_path this verbs path =
     (case path of
        PredicateArg f \<Rightarrow> (this\<lparr>passthroughChecks := passthroughChecks this @ [f]\<rparr>, None)
      | PathArg p \<Rightarrow> add_passthrough this (getFullPath this p) verbs
      | VerbsArg vs \<Rightarrow>
          add_passthrough this (getFullPath this (join '','' (map verb_name vs))) verbs)"

fun passthrough_paths ::
  "PlaywrightConfig \<Rightarrow> HTTPVerb list \<Rightarrow> passthrough_arg list \<Rightarrow> PlaywrightConfig \<times> error option" where
  "passthrough_paths this verbs [] = (this, None)"
| "passthrough_paths this verbs (path # paths) =
     (case passthrough_path this verbs path of
        (this', None) \<Rightarrow> passthrough_paths this' verbs paths
      | (this', Some e) \<Rightarrow> (this', Some e))"

text \<open>
  \<open>passthrough(...args)\<close>: the default paths for an empty argument list, the verbs of a
  trailing array otherwise, then the loop that collects the string arguments.
\<close>

definition passthrough ::
  "PlaywrightConfig \<Rightarrow> passthrough_arg list \<Rightarrow> PlaywrightConfig \<times> error option" where
  "passthrough this args =
     (let verbs = [Get, Post, Put, Delete, Patch, Options, Head];
          paths = [];
          paths = (if length args = 0 then [PathArg ''/**'', PathArg ''/''] else paths);
          verbs = (if length args = 0 then verbs
                   else (case last args of VerbsArg vs \<Rightarrow> vs | _ \<Rightarrow> verbs));
          paths = paths @ filter is_string_arg args
      in passthrough_paths this verbs paths)"

subsection \<open>The dispatcher\<close>

text \<open>\<open>playwrightPassthroughHandler\<close>: an optional log line, then \<open>route.continue()\<close>.\<close>

definition playwrightPassthroughHandler :: "PlaywrightConfig \<Rightarrow> PlaywrightRequest \<Rightarrow> event list" where
  "playwrightPassthroughHandler this request =
     (let verb = pw_method request;
          url' = pw_url request
      in (if (case mirageServer this of None \<Rightarrow> False | Some server \<Rightarrow> shouldLog server)
          then [ConsoleLog (''Mirage: Passthrough request for '' @ toUpperCase verb @ '' '' @ url')]
          else [])
         @ [RouteContinue])"

text \<open>
  \<open>playwrightHandler\<close>, the closure installed with \<open>page.route\<close>: what it does to the
  outside, and the error it throws, if any. In
  \<open>this.router[method.toLowerCase()]?.recognize(url.pathname)\<close> the \<open>?.\<close> stops at an
  undefined entry only: on an inherited value \<open>recognize\<close> is undefined, and calling it
  throws.
\<close>

definition playwrightHandler ::
  "PlaywrightConfig \<Rightarrow> PlaywrightRequest \<Rightarrow> event list \<times> error option" where
  "playwrightHandler this request =
     (let method = pw_method request
      in (case new_URL (pw_url request) of
            None \<Rightarrow> ([], Some TypeError)
          | Some url' \<Rightarrow>
              (let requestHeaders' = pw_allHeaders request;
                   postData = pw_postData request;
                   recognized = (case router_get this (toLowerCase method) of
                                   Undefined \<Rightarrow> Inr None
                                 | Recognizer recognizer \<Rightarrow>
                                     Inr (recognize recognizer (pathname url'))
                                 | Inherited \<Rightarrow> Inl TypeError)
               in (case recognized of
                     Inl e \<Rightarrow> ([], Some e)
                   | Inr matches \<Rightarrow>
               (let match = (case matches of
                              None \<Rightarrow> None
                            | Some (results, qps) \<Rightarrow>
                                (case results of [] \<Rightarrow> None | m # _ \<Rightarrow> Some (m, qps)))
               in (case match of
                     None \<Rightarrow> ([], Some (NoRoute (pathname url')))
                   | Some ((handler', params'), queryParams') \<Rightarrow>
                       (case handler' of
                          PlaywrightPassthroughHandler \<Rightarrow>
                            (playwrightPassthroughHandler this request, None)
                        | MirageHandler h \<Rightarrow>
                            (let mirageRequest =
                                   \<lparr>requestBody = (case postData of None \<Rightarrow> [] | Some d \<Rightarrow> d),
                                    requestHeaders = requestHeaders',
                                    url = pathname url',
                                    params = params',
                                    queryParams = queryParams'\<rparr>
                             in (case h mirageRequest of
                                   Inl msg \<Rightarrow> ([HandlerCalled mirageRequest], Some (HandlerFailed msg))
                                 | Inr (status, headers', body) \<Rightarrow>
                                     ([HandlerCalled mirageRequest]
                                      @ (if (case mirageServer this of
                                               None \<Rightarrow> False
                                             | Some server \<Rightarrow> shouldLog server)
                                         then [ConsoleLog (''Mirage: ['' @ show_int status @ ''] ''
                                                           @ toUpperCase method @ '' '' @ href url')]
                                         else [])
                                      @ [RouteFulfill status headers' body], None))))))))))"

text \<open>A predicate over requests, as a caller might hand one to \<open>passthrough\<close>.\<close>

definition is_get_request :: "PlaywrightRequest \<Rightarrow> bool" where
  "is_get_request request = (toLowerCase (pw_method request) = ''get'')"

section \<open>Notions used by the properties\<close>

text \<open>
  The request matches nothing: its verb has no table, or recognition in that table yields
  no result, or a result without a first entry.
\<close>

definition no_candidate :: "PlaywrightConfig \<Rightarrow> string \<Rightarrow> string \<Rightarrow> bool" where
  "no_candidate this verb path =
     (case router this verb of
        None \<Rightarrow> True
      | Some table \<Rightarrow>
          (case recognize table path of
             None \<Rightarrow> True
           | Some (results, qps) \<Rightarrow> results = []))"

text \<open>
  The entries that \<open>verbs.forEach\<close> appends to the table of the verb named \<open>k\<close> for one
  composed path: one for each occurrence of the verb in the list.
\<close>

definition passthrough_entries :: "string \<Rightarrow> HTTPVerb list \<Rightarrow> string \<Rightarrow> (string \<times> handler) list" where
  "passthrough_entries fullPath verbs k =
     replicate (count_list (map verb_name verbs) k) (fullPath, PlaywrightPassthroughHandler)"

subsection \<open>A concrete set-up\<close>

text \<open>
  A Mirage server whose handlers answer 200 with the request's path as body, a configuration
  with a page, the instance that \<open>create\<close> makes of them, and that instance after
  \<open>get("/movies/:id", handler)\<close>.
\<close>

definition example_handler :: RouteHandler where
  "example_handler request = Inr (200, None, Some (url request))"

definition example_server :: MirageServer where
  "example_server =
     \<lparr>registerRouteHandler = (\<lambda>verb path rawHandler code options'. example_handler),
      shouldLog = True\<rparr>"

definition example_config :: ServerConfig where
  "example_config =
     \<lparr>cfg_page = Some 1, cfg_interceptUrlPattern = None,
      cfg_urlPrefix = None, cfg_namespace = None\<rparr>"

definition created :: PlaywrightConfig where
  "created = fst (create new_PlaywrightConfig example_server example_config)"

definition movies :: PlaywrightConfig where
  "movies = fst (call_verb created ''get'' ''/movies/:id'' [JFunction 0])"

section \<open>Reading and adding, by the keys assigned\<close>

lemma router_add_table:
  "router_add this verb entry =
     (case router this verb of
        None \<Rightarrow> (this, Some TypeError)
      | Some table \<Rightarrow> (this\<lparr>router := (router this)(verb \<mapsto> add table entry)\<rparr>, None))"
  by (simp add: router_add_def router_get_def split: option.splits)

lemma router_get_table:
  "router this key = Some table \<Longrightarrow> router_get this key = Recognizer table"
  by (simp add: router_get_def)

lemma router_get_undefined:
  "router this key = None \<Longrightarrow> key \<notin> set object_prototype_keys
     \<Longrightarrow> router_get this key = Undefined"
  by (simp add: router_get_def)

lemma router_get_inherited:
  "router this key = None \<Longrightarrow> key \<in> set object_prototype_keys
     \<Longrightarrow> router_get this key = Inherited"
  by (simp add: router_get_def)

section \<open>Properties of the path composer\<close>

lemmas js_string_defs =
  char_at_def slice_from_def substring_def truthy_def string_of_def trim_def is_fqdn_def
  is_js_space_def

lemma getFullPath_row_1:
  "getFullPath (this\<lparr>urlPrefix := Some '''', namespace := Some ''''\<rparr>) ''a'' = ''/a''"
  by (simp add: getFullPath_def Let_def js_string_defs)

lemma getFullPath_row_2:
  "getFullPath (this\<lparr>urlPrefix := Some ''http://h:1'', namespace := Some ''/api/''\<rparr>) ''a''
     = ''http://h:1/api/a''"
  by (simp add: getFullPath_def Let_def js_string_defs)

lemma getFullPath_row_3:
  "getFullPath (this\<lparr>urlPrefix := Some '''', namespace := Some ''/api''\<rparr>) ''a'' = ''/api/a''"
  by (simp add: getFullPath_def Let_def js_string_defs)

lemma getFullPath_row_4:
  "getFullPath (this\<lparr>urlPrefix := Some '''', namespace := Some ''api/''\<rparr>) ''a'' = ''/api/a''"
  by (simp add: getFullPath_def Let_def js_string_defs)

text \<open>
  C4. The composer table: on any instance whose \<open>urlPrefix\<close> and \<open>namespace\<close> are set as
  in a row of the table, \<open>_getFullPath("a")\<close> is the row's result: \<open>/a\<close> for two empty
  strings, \<open>http://h:1/api/a\<close> for \<open>http://h:1\<close> and \<open>/api/\<close>, and \<open>/api/a\<close> for an empty
  prefix with \<open>/api\<close> as well as with \<open>api/\<close>.
\<close>

theorem getFullPath_table:
  "getFullPath (this\<lparr>urlPrefix := Some '''', namespace := Some ''''\<rparr>) ''a'' = ''/a''
   \<and> getFullPath (this\<lparr>urlPrefix := Some ''http://h:1'', namespace := Some ''/api/''\<rparr>) ''a''
       = ''http://h:1/api/a''
   \<and> getFullPath (this\<lparr>urlPrefix := Some '''', namespace := Some ''/api''\<rparr>) ''a'' = ''/api/a''
   \<and> getFullPath (this\<lparr>urlPrefix := Some '''', namespace := Some ''api/''\<rparr>) ''a'' = ''/api/a''"
  using getFullPath_row_1 getFullPath_row_2 getFullPath_row_3 getFullPath_row_4 by blast

subsection \<open>Composing twice\<close>

lemma collapse_slashes_length: "length (collapse_slashes xs) \<le> length xs"
  by (induction xs rule: collapse_slashes.induct) auto

lemma collapse_slashes_hd: "\<exists>ys. collapse_slashes (c # xs) = c # ys"
  by (induction xs arbitrary: c) (auto split: if_splits)

lemma collapse_slashes_idem: "collapse_slashes (collapse_slashes xs) = collapse_slashes xs"
proof (induction xs rule: collapse_slashes.induct)
  case (3 c d cs)
  show ?case
  proof (cases "c = CHR ''/'' \<and> d = CHR ''/''")
    case True
    with 3 show ?thesis by simp
  next
    case False
    obtain es where "collapse_slashes (d # cs) = d # es"
      using collapse_slashes_hd by blast
    with False 3 show ?thesis by (auto split: if_splits)
  qed
qed simp_all

lemma fqdn_hd: "is_fqdn xs \<Longrightarrow> \<exists>ys. xs = CHR ''h'' # ys"
  by (cases xs) (auto simp: is_fqdn_def)

text \<open>A string that collapsing leaves alone has no \<open>//\<close>, hence no scheme after its head.\<close>

lemma fqdn_not_fixed:
  assumes "is_fqdn xs"
  shows "collapse_slashes (c # xs) \<noteq> c # xs"
proof -
  have shorter: "length (p @ collapse_slashes (CHR ''/'' # ys))
                   < length (p @ CHR ''/'' # CHR ''/'' # ys)" for p ys
    using collapse_slashes_length [of "CHR ''/'' # ys"] by (simp add: le_imp_less_Suc)
  from assms consider ys where "xs = ''http://'' @ ys" | ys where "xs = ''https://'' @ ys"
    unfolding is_fqdn_def by (metis append_take_drop_id)
  then show ?thesis
  proof cases
    case 1
    have "collapse_slashes (c # xs) = (c # ''http:'') @ collapse_slashes (CHR ''/'' # ys)"
      using 1 by simp
    moreover have "c # xs = (c # ''http:'') @ CHR ''/'' # CHR ''/'' # ys"
      using 1 by simp
    ultimately show ?thesis
      using shorter [of "c # ''http:''" ys] by (metis less_irrefl)
  next
    case 2
    have "collapse_slashes (c # xs) = (c # ''https:'') @ collapse_slashes (CHR ''/'' # ys)"
      using 2 by simp
    moreover have "c # xs = (c # ''https:'') @ CHR ''/'' # CHR ''/'' # ys"
      using 2 by simp
    ultimately show ?thesis
      using shorter [of "c # ''https:''" ys] by (metis less_irrefl)
  qed
qed

lemma getFullPath_of_fqdn:
  assumes "is_fqdn g"
  shows "getFullPath this g = g"
proof -
  from fqdn_hd [OF assms] obtain ys where "g = CHR ''h'' # ys" by blast
  then have "char_at g 0 \<noteq> Some CHR ''/''" by (simp add: char_at_def)
  then show ?thesis using assms by (simp add: getFullPath_def Let_def)
qed

text \<open>Without prefix and namespace the composer only strips, prepends and collapses.\<close>

lemma getFullPath_plain:
  assumes "\<not> truthy (urlPrefix this)" "\<not> truthy (namespace this)"
  shows "getFullPath this p =
     (let q = (if char_at p 0 = Some CHR ''/'' then slice_from 1 p else p)
      in if is_fqdn q then q else collapse_slashes (CHR ''/'' # q))"
  using assms by (simp add: getFullPath_def Let_def char_at_def is_fqdn_def)

text \<open>
  C5, as the claim states it, fails: with an empty \<open>urlPrefix\<close> and the namespace \<open>/api\<close>,
  the path \<open>a\<close> composes to \<open>/api/a\<close>, and composing that again puts the namespace in
  front a second time.
\<close>

theorem getFullPath_not_idempotent:
  "getFullPath (new_PlaywrightConfig\<lparr>urlPrefix := Some '''', namespace := Some ''/api''\<rparr>)
     (getFullPath (new_PlaywrightConfig\<lparr>urlPrefix := Some '''', namespace := Some ''/api''\<rparr>) ''a'')
   \<noteq> getFullPath (new_PlaywrightConfig\<lparr>urlPrefix := Some '''', namespace := Some ''/api''\<rparr>) ''a''"
  by (simp add: getFullPath_def Let_def js_string_defs)

text \<open>
  C5, amended. Composing is idempotent where the composed path is an absolute URL
  (it starts with \<open>http://\<close> or \<open>https://\<close>), and for every path when neither a
  \<open>urlPrefix\<close> nor a \<open>namespace\<close> is set: composing the result again yields the same string.
\<close>

theorem getFullPath_idempotent:
  assumes "is_fqdn (getFullPath this path)
           \<or> (\<not> truthy (urlPrefix this) \<and> \<not> truthy (namespace this))"
  shows "getFullPath this (getFullPath this path) = getFullPath this path"
proof (cases "is_fqdn (getFullPath this path)")
  case True
  then show ?thesis by (rule getFullPath_of_fqdn)
next
  case False
  with assms have plain: "\<not> truthy (urlPrefix this)" "\<not> truthy (namespace this)"
    by auto
  define q where "q = (if char_at path 0 = Some CHR ''/'' then slice_from 1 path else path)"
  have composed: "getFullPath this path = collapse_slashes (CHR ''/'' # q)"
    using False getFullPath_plain [OF plain, of path]
    by (auto simp: Let_def q_def split: if_splits)
  obtain r where r: "collapse_slashes (CHR ''/'' # q) = CHR ''/'' # r"
    using collapse_slashes_hd by blast
  have fixed: "collapse_slashes (CHR ''/'' # r) = CHR ''/'' # r"
    using collapse_slashes_idem [of "CHR ''/'' # q"] r by simp
  then have "\<not> is_fqdn r"
    using fqdn_not_fixed by blast
  then have "getFullPath this (CHR ''/'' # r) = collapse_slashes (CHR ''/'' # r)"
    using getFullPath_plain [OF plain, of "CHR ''/'' # r"]
    by (simp add: Let_def char_at_def slice_from_def)
  with fixed composed r show ?thesis by simp
qed

theorem getFullPath_idempotent_witness:
  "(\<not> truthy (urlPrefix new_PlaywrightConfig) \<and> \<not> truthy (namespace new_PlaywrightConfig))
   \<and> getFullPath new_PlaywrightConfig ''//movies//:id'' = ''/movies/:id''
   \<and> getFullPath new_PlaywrightConfig (getFullPath new_PlaywrightConfig ''//movies//:id'')
       = ''/movies/:id''
   \<and> is_fqdn (getFullPath (new_PlaywrightConfig\<lparr>urlPrefix := Some ''http://h:1'',
                                                   namespace := Some ''/api/''\<rparr>) ''a'')
   \<and> getFullPath (new_PlaywrightConfig\<lparr>urlPrefix := Some ''http://h:1'', namespace := Some ''/api/''\<rparr>)
         (getFullPath (new_PlaywrightConfig\<lparr>urlPrefix := Some ''http://h:1'',
                                              namespace := Some ''/api/''\<rparr>) ''a'')
       = ''http://h:1/api/a''"
proof -
  let ?prefixed = "new_PlaywrightConfig\<lparr>urlPrefix := Some ''http://h:1'', namespace := Some ''/api/''\<rparr>"
  have plain: "\<not> truthy (urlPrefix new_PlaywrightConfig) \<and> \<not> truthy (namespace new_PlaywrightConfig)"
    by (simp add: new_PlaywrightConfig_def truthy_def)
  have once: "getFullPath new_PlaywrightConfig ''//movies//:id'' = ''/movies/:id''"
    by (simp add: getFullPath_def Let_def js_string_defs new_PlaywrightConfig_def)
  have twice: "getFullPath new_PlaywrightConfig (getFullPath new_PlaywrightConfig ''//movies//:id'')
                 = ''/movies/:id''"
    using plain getFullPath_idempotent [of new_PlaywrightConfig "''//movies//:id''"] once
    by simp
  have url: "getFullPath ?prefixed ''a'' = ''http://h:1/api/a''"
    by (simp add: getFullPath_def Let_def js_string_defs)
  then have fqdn: "is_fqdn (getFullPath ?prefixed ''a'')"
    by (simp add: is_fqdn_def)
  then have "getFullPath ?prefixed (getFullPath ?prefixed ''a'') = ''http://h:1/api/a''"
    using getFullPath_idempotent [of ?prefixed "''a''"] url by simp
  with plain once twice fqdn show ?thesis
    by blast
qed

section \<open>Properties of config and create\<close>

text \<open>
  C8. \<open>config\<close> leaves a \<open>urlPrefix\<close> that is already a non-empty string as it is, and
  likewise a \<open>namespace\<close>; so a call changes a field only where it was empty or unset.
\<close>

theorem config_set_once:
  "(truthy (urlPrefix this) \<longrightarrow> urlPrefix (config this mirageConfig) = urlPrefix this)
   \<and> (truthy (namespace this) \<longrightarrow> namespace (config this mirageConfig) = namespace this)
   \<and> (urlPrefix (config this mirageConfig) \<noteq> urlPrefix this \<longrightarrow> \<not> truthy (urlPrefix this))
   \<and> (namespace (config this mirageConfig) \<noteq> namespace this \<longrightarrow> \<not> truthy (namespace this))"
  by (auto simp: config_def Let_def or_default_def truthy_def string_of_def split: option.splits)

theorem config_set_once_witness:
  "truthy (urlPrefix (new_PlaywrightConfig\<lparr>urlPrefix := Some ''http://a'', namespace := Some ''/v1''\<rparr>))
   \<and> truthy (namespace (new_PlaywrightConfig\<lparr>urlPrefix := Some ''http://a'', namespace := Some ''/v1''\<rparr>))
   \<and> urlPrefix (config (new_PlaywrightConfig\<lparr>urlPrefix := Some ''http://a'', namespace := Some ''/v1''\<rparr>)
                   (example_config\<lparr>cfg_urlPrefix := Some ''http://b'', cfg_namespace := Some ''/v2''\<rparr>))
       = Some ''http://a''
   \<and> namespace (config (new_PlaywrightConfig\<lparr>urlPrefix := Some ''http://a'', namespace := Some ''/v1''\<rparr>)
                   (example_config\<lparr>cfg_urlPrefix := Some ''http://b'', cfg_namespace := Some ''/v2''\<rparr>))
       = Some ''/v1''"
  using config_set_once
    [of "new_PlaywrightConfig\<lparr>urlPrefix := Some ''http://a'', namespace := Some ''/v1''\<rparr>"
        "example_config\<lparr>cfg_urlPrefix := Some ''http://b'', cfg_namespace := Some ''/v2''\<rparr>"]
  by (simp add: truthy_def)

text \<open>
  C9. When the configuration carries no page, \<open>create\<close> throws the page error, and the
  instance it leaves behind already holds the server passed in, the intercept pattern taken
  from the configuration (the former one when the configuration has none) and an undefined
  page; where the server was not the one stored before, the instance has changed.
\<close>

theorem create_without_page:
  assumes "cfg_page cfg = None"
  shows "create this server cfg =
           (this\<lparr>mirageServer := Some server,
                 interceptUrlPattern :=
                   (case cfg_interceptUrlPattern cfg of
                      Some p \<Rightarrow> p
                    | None \<Rightarrow> interceptUrlPattern this),
                 page := None\<rparr>,
            Some PageMissing)
         \<and> error_message PageMissing = ''A Playwright Page must be passed in the mirageConfig''
         \<and> (mirageServer this \<noteq> Some server \<longrightarrow> fst (create this server cfg) \<noteq> this)"
proof -
  have "mirageServer (fst (create this server cfg)) = Some server"
    using assms by (simp add: create_def Let_def)
  then have "mirageServer this \<noteq> Some server \<longrightarrow> fst (create this server cfg) \<noteq> this"
    by auto
  moreover have "create this server cfg =
           (this\<lparr>mirageServer := Some server,
                 interceptUrlPattern :=
                   (case cfg_interceptUrlPattern cfg of
                      Some p \<Rightarrow> p
                    | None \<Rightarrow> interceptUrlPattern this),
                 page := None\<rparr>,
            Some PageMissing)"
    using assms by (cases "cfg_interceptUrlPattern cfg") (simp_all add: create_def Let_def)
  ultimately show ?thesis
    by simp
qed

theorem create_without_page_witness:
  "cfg_page (example_config\<lparr>cfg_page := None, cfg_interceptUrlPattern := Some ''/api/**''\<rparr>) = None
   \<and> snd (create new_PlaywrightConfig example_server
             (example_config\<lparr>cfg_page := None, cfg_interceptUrlPattern := Some ''/api/**''\<rparr>))
       = Some PageMissing
   \<and> mirageServer new_PlaywrightConfig = None
   \<and> mirageServer (fst (create new_PlaywrightConfig example_server
             (example_config\<lparr>cfg_page := None, cfg_interceptUrlPattern := Some ''/api/**''\<rparr>)))
       = Some example_server
   \<and> interceptUrlPattern new_PlaywrightConfig = ''**''
   \<and> interceptUrlPattern (fst (create new_PlaywrightConfig example_server
             (example_config\<lparr>cfg_page := None, cfg_interceptUrlPattern := Some ''/api/**''\<rparr>)))
       = ''/api/**''
   \<and> fst (create new_PlaywrightConfig example_server
             (example_config\<lparr>cfg_page := None, cfg_interceptUrlPattern := Some ''/api/**''\<rparr>))
       \<noteq> new_PlaywrightConfig"
proof -
  let ?cfg = "example_config\<lparr>cfg_page := None, cfg_interceptUrlPattern := Some ''/api/**''\<rparr>"
  let ?result = "create new_PlaywrightConfig example_server ?cfg"
  have none: "cfg_page ?cfg = None"
    by simp
  have fresh: "mirageServer new_PlaywrightConfig = None"
    "interceptUrlPattern new_PlaywrightConfig = ''**''"
    by (simp_all add: new_PlaywrightConfig_def)
  note applied = create_without_page [OF none, of new_PlaywrightConfig example_server]
  from applied have result: "?result =
      (new_PlaywrightConfig\<lparr>mirageServer := Some example_server,
                            interceptUrlPattern := ''/api/**'', page := None\<rparr>, Some PageMissing)"
    by simp
  from applied fresh have changed: "fst ?result \<noteq> new_PlaywrightConfig"
    by (metis option.distinct(1))
  have "snd ?result = Some PageMissing" "mirageServer (fst ?result) = Some example_server"
    "interceptUrlPattern (fst ?result) = ''/api/**''"
    by (simp_all add: result)
  with none fresh changed show ?thesis
    by blast
qed

section \<open>Properties of passthrough\<close>

lemma getFullPath_frame:
  assumes "urlPrefix a = urlPrefix b" and "namespace a = namespace b"
  shows "getFullPath a p = getFullPath b p"
  unfolding getFullPath_def assms ..

lemma router_add_checks:
  "passthroughChecks (fst (router_add this verb entry)) = passthroughChecks this"
  by (simp add: router_add_table split: option.splits)

lemma add_passthrough_checks:
  "passthroughChecks (fst (add_passthrough this fullPath verbs)) = passthroughChecks this"
proof (induction verbs arbitrary: this)
  case Nil
  then show ?case by simp
next
  case (Cons verb verbs)
  show ?case
  proof (cases "router this (verb_name verb)")
    case None
    then show ?thesis by (simp add: router_add_table)
  next
    case (Some table)
    then show ?thesis
      using Cons [of "this\<lparr>router := (router this)(verb_name verb \<mapsto>
                            add table (fullPath, PlaywrightPassthroughHandler))\<rparr>"]
      by (simp add: router_add_table)
  qed
qed

text \<open>The elements of \<open>paths\<close> are strings, and registering a string leaves the checks alone.\<close>

lemma passthrough_paths_checks:
  assumes "list_all is_string_arg paths"
  shows "passthroughChecks (fst (passthrough_paths this verbs paths)) = passthroughChecks this"
  using assms
proof (induction paths arbitrary: this)
  case Nil
  then show ?case by simp
next
  case (Cons path paths)
  then obtain p where p: "path = PathArg p"
    by (cases path) auto
  obtain this' e where step: "add_passthrough this (getFullPath this p) verbs = (this', e)"
    by (cases "add_passthrough this (getFullPath this p) verbs")
  then have keep: "passthroughChecks this' = passthroughChecks this"
    using add_passthrough_checks [of this "getFullPath this p" verbs] by simp
  show ?case
  proof (cases e)
    case None
    with Cons p step keep show ?thesis by (simp add: passthrough_path_def)
  next
    case (Some err)
    with p step keep show ?thesis by (simp add: passthrough_path_def)
  qed
qed

text \<open>
  C6. \<open>passthrough\<close> called with a predicate, on any instance, returns without an error and
  leaves the instance as it was, \<open>passthroughChecks\<close> included: the predicate is not
  appended. The class declares the list of predicates and \<open>paths.forEach\<close> has the branch
  that pushes a function onto it, but the loop that fills \<open>paths\<close> takes strings only, so
  the branch is never reached.
\<close>

theorem passthrough_drops_predicate:
  "passthrough this [PredicateArg f] = (this, None)
   \<and> passthroughChecks (fst (passthrough this [PredicateArg f])) = passthroughChecks this"
  by (simp add: passthrough_def)

text \<open>The same for every argument list: no call appends to \<open>passthroughChecks\<close>.\<close>

lemma passthrough_keeps_checks:
  "passthroughChecks (fst (passthrough this args)) = passthroughChecks this"
proof -
  have "list_all is_string_arg
          ((if length args = 0 then [PathArg ''/**'', PathArg ''/''] else [])
           @ filter is_string_arg args)"
    by (auto simp: list_all_iff)
  then show ?thesis
    by (simp add: passthrough_def Let_def passthrough_paths_checks)
qed

text \<open>
  A predicate in last place also hides a verb array before it: the path is then registered
  for the seven default verbs, not for the verbs of the array.
\<close>

lemma passthrough_predicate_after_verbs:
  "passthrough this [PathArg p, VerbsArg [Get], PredicateArg f]
     = add_passthrough this (getFullPath this p) [Get, Post, Put, Delete, Patch, Options, Head]"
  by (cases "add_passthrough this (getFullPath this p) [Get, Post, Put, Delete, Patch, Options, Head]")
     (simp add: passthrough_def passthrough_path_def del: add_passthrough.simps split: option.splits)

subsection \<open>The default paths\<close>

lemma add_passthrough_router:
  assumes "\<forall>verb \<in> set verbs. router this (verb_name verb) \<noteq> None"
  shows "add_passthrough this fullPath verbs =
           (this\<lparr>router := \<lambda>k. map_option (\<lambda>table. table @ passthrough_entries fullPath verbs k)
                                            (router this k)\<rparr>, None)"
  using assms
proof (induction verbs arbitrary: this)
  case Nil
  then show ?case by (simp add: passthrough_entries_def option.map_ident)
next
  case (Cons verb verbs)
  from Cons.prems obtain table where table: "router this (verb_name verb) = Some table"
    by auto
  define this' where
    "this' = this\<lparr>router := (router this)(verb_name verb \<mapsto>
                       add table (fullPath, PlaywrightPassthroughHandler))\<rparr>"
  have ready: "\<forall>v \<in> set verbs. router this' (verb_name v) \<noteq> None"
    using Cons.prems by (simp add: this'_def)
  have step: "router_add this (verb_name verb) (fullPath, PlaywrightPassthroughHandler)
                = (this', None)"
    by (simp add: router_add_table table this'_def)
  have "(\<lambda>k. map_option (\<lambda>t. t @ passthrough_entries fullPath verbs k) (router this' k))
        = (\<lambda>k. map_option (\<lambda>t. t @ passthrough_entries fullPath (verb # verbs) k) (router this k))"
    by (rule ext) (simp add: this'_def table add_def passthrough_entries_def)
  then show ?case
    using Cons.IH [OF ready] step by (simp add: this'_def)
qed

lemma passthrough_entries_default:
  "passthrough_entries fullPath [Get, Post, Put, Delete, Patch, Options, Head] k =
     (if k \<in> set (map verb_name [Get, Post, Put, Delete, Patch, Options, Head])
      then [(fullPath, PlaywrightPassthroughHandler)] else [])"
  by (simp add: passthrough_entries_def)

lemma passthrough_two_paths:
  assumes "add_passthrough this (getFullPath this a) verbs = (mid, None)"
  shows "passthrough_paths this verbs [PathArg a, PathArg b]
           = add_passthrough mid (getFullPath mid b) verbs"
  using assms
  by (cases "add_passthrough mid (getFullPath mid b) verbs")
     (simp add: passthrough_path_def split: option.splits)

text \<open>
  C7. On an instance whose seven verbs have their tables (as \<open>create\<close> leaves it),
  \<open>passthrough()\<close> returns without an error and changes the route tables only: the table
  of each of the seven verbs is the former table followed by exactly two entries, the
  composed \<open>/**\<close> and the composed \<open>/\<close>, both with the passthrough handler. Every entry
  registered before is still there, in its place.
\<close>

theorem passthrough_no_arguments:
  assumes "\<forall>verb. router this (verb_name verb) \<noteq> None"
  shows "passthrough this [] =
           (this\<lparr>router := \<lambda>k. map_option
                (\<lambda>table. table @
                   (if k \<in> set (map verb_name [Get, Post, Put, Delete, Patch, Options, Head])
                    then [(getFullPath this ''/**'', PlaywrightPassthroughHandler),
                          (getFullPath this ''/'', PlaywrightPassthroughHandler)]
                    else []))
                (router this k)\<rparr>, None)"
proof -
  define verbs where "verbs = [Get, Post, Put, Delete, Patch, Options, Head]"
  let ?a = "getFullPath this ''/**''" and ?b = "getFullPath this ''/''"
  define mid where
    "mid = this\<lparr>router := \<lambda>k. map_option (\<lambda>table. table @ passthrough_entries ?a verbs k)
                                          (router this k)\<rparr>"
  have one: "add_passthrough this ?a verbs = (mid, None)"
    unfolding mid_def using assms by (intro add_passthrough_router) simp
  have ready: "\<forall>verb \<in> set verbs. router mid (verb_name verb) \<noteq> None"
    using assms by (simp add: mid_def)
  have same: "getFullPath mid ''/'' = ?b"
    by (rule getFullPath_frame) (simp_all add: mid_def)
  have two: "add_passthrough mid ?b verbs =
      (mid\<lparr>router := \<lambda>k. map_option (\<lambda>table. table @ passthrough_entries ?b verbs k)
                                      (router mid k)\<rparr>, None)"
    using ready by (rule add_passthrough_router)
  have tables: "(\<lambda>k. map_option (\<lambda>table. table @ passthrough_entries ?b verbs k) (router mid k)) =
     (\<lambda>k. map_option
                (\<lambda>table. table @
                   (if k \<in> set (map verb_name [Get, Post, Put, Delete, Patch, Options, Head])
                    then [(?a, PlaywrightPassthroughHandler), (?b, PlaywrightPassthroughHandler)]
                    else []))
                (router this k))"
    by (rule ext)
       (simp add: mid_def verbs_def passthrough_entries_default option.map_comp comp_def
             del: set_map list.map)
  have "passthrough this [] = passthrough_paths this verbs [PathArg ''/**'', PathArg ''/'']"
    by (simp add: passthrough_def verbs_def del: passthrough_paths.simps)
  also have "\<dots> = add_passthrough mid (getFullPath mid ''/'') verbs"
    using one by (rule passthrough_two_paths)
  also have "\<dots> = (mid\<lparr>router := \<lambda>k. map_option (\<lambda>table. table @ passthrough_entries ?b verbs k)
                                      (router mid k)\<rparr>, None)"
    by (simp only: same two)
  also have "\<dots> = (this\<lparr>router := \<lambda>k. map_option
                (\<lambda>table. table @
                   (if k \<in> set (map verb_name [Get, Post, Put, Delete, Patch, Options, Head])
                    then [(?a, PlaywrightPassthroughHandler), (?b, PlaywrightPassthroughHandler)]
                    else []))
                (router this k)\<rparr>, None)"
    unfolding tables by (simp add: mid_def)
  finally show ?thesis .
qed

subsection \<open>The concrete set-up, evaluated\<close>

lemmas set_up_defs =
  created_def create_def Let_def new_PlaywrightConfig_def config_def create_verbs_def
  install_verb_def or_default_def truthy_def string_of_def example_config_def

lemma created_fields:
  "urlPrefix created = Some []" "namespace created = Some []"
  "mirageServer created = Some example_server"
  "verbFns created ''get'' = Some Get"
  "passthroughChecks created = []"
  by (simp_all add: set_up_defs)

lemma created_router:
  "router created ''get'' = Some []" "router created ''post'' = Some []"
  "router created ''put'' = Some []" "router created ''delete'' = Some []"
  "router created ''patch'' = Some []" "router created ''options'' = Some []"
  "router created ''head'' = Some []"
  by (simp_all add: set_up_defs)

lemma created_getFullPath:
  "getFullPath created ''/movies/:id'' = ''/movies/:id''"
  by (simp add: getFullPath_def Let_def created_fields js_string_defs)

lemma movies_eq:
  "movies = created\<lparr>router := (router created)
              (''get'' \<mapsto> [(''/movies/:id'', MirageHandler example_handler)])\<rparr>"
  by (simp add: movies_def call_verb_def verb_closure_def created_fields created_router
      created_getFullPath router_add_table add_def example_server_def split: prod.splits)

lemma movies_router:
  "router movies ''get'' = Some [(''/movies/:id'', MirageHandler example_handler)]"
  "router movies ''post'' = Some []"
  "router movies ''put'' = Some []" "router movies ''delete'' = Some []"
  "router movies ''patch'' = Some []" "router movies ''options'' = Some []"
  "router movies ''head'' = Some []"
  by (simp_all add: movies_eq created_router)

lemma movies_server: "mirageServer movies = Some example_server"
  by (simp add: movies_eq created_fields)

lemma movies_ready: "\<forall>verb. router movies (verb_name verb) \<noteq> None"
proof
  fix verb
  show "router movies (verb_name verb) \<noteq> None"
    by (cases verb) (simp_all add: movies_router)
qed

lemma movies_getFullPath:
  "getFullPath movies ''/**'' = ''/**''" "getFullPath movies ''/'' = ''/''"
  by (simp_all add: getFullPath_def Let_def movies_eq created_fields js_string_defs)

text \<open>\<open>create\<close> with a page gives each of the seven verbs an empty table.\<close>

lemma create_tables:
  assumes "cfg_page cfg = Some pg"
  shows "snd (create this server cfg) = None
         \<and> router (fst (create this server cfg)) (verb_name verb) = Some []"
  using assms
  by (cases verb) (simp_all add: create_def Let_def config_def create_verbs_def install_verb_def)

theorem passthrough_no_arguments_witness:
  "(\<forall>verb. router movies (verb_name verb) \<noteq> None)
   \<and> snd (passthrough movies []) = None
   \<and> router (fst (passthrough movies [])) ''get''
       = Some [(''/movies/:id'', MirageHandler example_handler),
               (''/**'', PlaywrightPassthroughHandler), (''/'', PlaywrightPassthroughHandler)]
   \<and> router (fst (passthrough movies [])) ''head''
       = Some [(''/**'', PlaywrightPassthroughHandler), (''/'', PlaywrightPassthroughHandler)]"
  using passthrough_no_arguments [OF movies_ready] movies_ready
  by (simp add: movies_router movies_getFullPath)

subsection \<open>Arguments without a string\<close>

text \<open>
  C10. A call to \<open>passthrough\<close> with at least one argument, none of them a string, returns
  without an error and leaves the instance as it was: no table gains a route and
  \<open>passthroughChecks\<close> is unchanged. The default paths belong to the empty argument list
  only.
\<close>

theorem passthrough_without_strings:
  assumes "args \<noteq> []" and "\<not> list_ex is_string_arg args"
  shows "passthrough this args = (this, None)"
proof -
  from assms(2) have "filter is_string_arg args = []"
    by (simp add: list_ex_iff filter_empty_conv)
  with assms(1) show ?thesis
    by (simp add: passthrough_def)
qed

theorem passthrough_without_strings_witness:
  "[VerbsArg [Get, Post]] \<noteq> [] \<and> \<not> list_ex is_string_arg [VerbsArg [Get, Post]]
   \<and> passthrough movies [VerbsArg [Get, Post]] = (movies, None)"
  using passthrough_without_strings [of "[VerbsArg [Get, Post]]" movies]
  by simp

section \<open>Properties of the dispatcher\<close>

lemma lower_GET: "toLowerCase ''GET'' = ''get''"
  by code_simp

lemma upper_GET: "toUpperCase ''GET'' = ''GET''"
  by code_simp

lemmas recognize_defs =
  recognize_def candidates_def parse_pattern_def parse_segment_def strip_leading_slash_def
  dynamic_count_def parseQueryString_def parse_pair_def

lemma url_movies:
  "new_URL ''http://localhost/movies/42?sort=asc''
     = Some \<lparr>href = ''http://localhost/movies/42?sort=asc'', pathname = ''/movies/42'',
             search = ''?sort=asc''\<rparr>"
  by (simp add: new_URL_def Let_def)

text \<open>What the recognizer returns for the path alone, and for the path with its query.\<close>

lemma recognize_movies:
  "recognize [(''/movies/:id'', h)] ''/movies/42'' = Some ([(h, [(''id'', ''42'')])], [])"
  by (simp add: recognize_defs)

lemma recognize_movies_query:
  "recognize [(''/movies/:id'', h)] ''/movies/42?sort=asc''
     = Some ([(h, [(''id'', ''42'')])], [(''sort'', ''asc'')])"
  by (simp add: recognize_defs)

lemma show_200: "show_int 200 = ''200''"
  by code_simp

text \<open>
  The same request on the instance set up through \<open>create\<close> and \<open>get\<close>, from the
  interception to \<open>route.fulfill\<close>.
\<close>

lemma dispatch_movies_registered:
  "playwrightHandler movies
     \<lparr>pw_method = ''GET'', pw_url = ''http://localhost/movies/42?sort=asc'',
      pw_allHeaders = [], pw_postData = None\<rparr>
   = ([HandlerCalled \<lparr>requestBody = [], requestHeaders = [], url = ''/movies/42'',
                      params = [(''id'', ''42'')], queryParams = []\<rparr>,
       ConsoleLog ''Mirage: [200] GET http://localhost/movies/42?sort=asc'',
       RouteFulfill 200 None (Some ''/movies/42'')], None)"
  by (simp add: playwrightHandler_def Let_def url_movies recognize_movies lower_GET upper_GET
      router_get_table movies_router movies_server example_handler_def example_server_def
      show_200)

text \<open>
  C1. With \<open>/movies/:id\<close> in the table of \<open>get\<close>, a GET request for
  \<open>http://localhost/movies/42?sort=asc\<close> reaches the handler with \<open>params\<close> holding
  \<open>id = 42\<close>, as the claim says, but with empty \<open>queryParams\<close>: the dispatcher hands
  \<open>url.pathname\<close> to the recognizer, and the pathname has no query to parse.
\<close>

theorem dispatch_movies_query:
  "take 1 (fst (playwrightHandler
      (this\<lparr>router := (router this)(''get'' \<mapsto> [(''/movies/:id'', MirageHandler h)])\<rparr>)
      \<lparr>pw_method = ''GET'', pw_url = ''http://localhost/movies/42?sort=asc'',
       pw_allHeaders = hs, pw_postData = body\<rparr>))
   = [HandlerCalled \<lparr>requestBody = (case body of None \<Rightarrow> [] | Some d \<Rightarrow> d),
                     requestHeaders = hs, url = ''/movies/42'',
                     params = [(''id'', ''42'')], queryParams = []\<rparr>]"
proof -
  let ?request = "\<lparr>requestBody = (case body of None \<Rightarrow> [] | Some d \<Rightarrow> d),
                     requestHeaders = hs, url = ''/movies/42'',
                     params = [(''id'', ''42'')], queryParams = []\<rparr>"
  show ?thesis
  proof (cases "h ?request")
    case (Inl msg)
    then show ?thesis
      by (simp add: playwrightHandler_def Let_def url_movies recognize_movies lower_GET
          router_get_def)
  next
    case (Inr response)
    then show ?thesis
      by (cases response)
         (simp add: playwrightHandler_def Let_def url_movies recognize_movies lower_GET
            router_get_def)
  qed
qed

text \<open>
  Where the lower-cased verb is not the name of an inherited property, a request that
  matches nothing makes the dispatcher throw \<open>No Mirage route registered for\<close> followed by
  the pathname, and nothing has been done to the outside by then.
\<close>

lemma dispatch_no_route:
  assumes "new_URL (pw_url request) = Some url'"
    and "no_candidate this (toLowerCase (pw_method request)) (pathname url')"
    and "toLowerCase (pw_method request) \<notin> set object_prototype_keys"
  shows "playwrightHandler this request = ([], Some (NoRoute (pathname url')))"
  using assms
  by (auto simp: playwrightHandler_def no_candidate_def router_get_def Let_def
           split: option.splits list.splits)

lemma url_actors:
  "new_URL ''http://localhost/actors/1''
     = Some \<lparr>href = ''http://localhost/actors/1'', pathname = ''/actors/1'', search = []\<rparr>"
  by (simp add: new_URL_def Let_def)

lemma recognize_actors: "recognize [(''/movies/:id'', h)] ''/actors/1'' = None"
  by (simp add: recognize_defs)

lemma dispatch_actors:
  "playwrightHandler movies
     \<lparr>pw_method = ''GET'', pw_url = ''http://localhost/actors/1'',
      pw_allHeaders = [], pw_postData = None\<rparr>
   = ([], Some (NoRoute ''/actors/1''))"
  by (simp add: playwrightHandler_def Let_def url_actors lower_GET router_get_table
      movies_router recognize_actors)

lemma lower_CONSTRUCTOR: "toLowerCase ''CONSTRUCTOR'' = ''constructor''"
  by code_simp

lemma movies_no_constructor: "router movies ''constructor'' = None"
  by (simp add: movies_eq set_up_defs)

text \<open>
  C2. A request with the method \<open>CONSTRUCTOR\<close> matches nothing, since no table is
  registered under \<open>constructor\<close>; yet the dispatcher does not throw the routing-miss error
  for it. \<open>this.router["constructor"]\<close> is the constructor every object inherits, \<open>?.\<close> lets
  it pass, and the call of its undefined \<open>recognize\<close> throws a \<open>TypeError\<close>. The request is
  neither fulfilled nor forwarded.
\<close>

theorem dispatch_inherited_verb:
  "no_candidate movies (toLowerCase ''CONSTRUCTOR'') ''/actors/1''
   \<and> playwrightHandler movies
         \<lparr>pw_method = ''CONSTRUCTOR'', pw_url = ''http://localhost/actors/1'',
          pw_allHeaders = [], pw_postData = None\<rparr>
       = ([], Some TypeError)"
proof -
  have inherited: "router_get movies ''constructor'' = Inherited"
    by (simp add: router_get_inherited movies_no_constructor object_prototype_keys_def)
  have "no_candidate movies ''constructor'' ''/actors/1''"
    by (simp add: no_candidate_def movies_no_constructor)
  then show ?thesis
    by (simp add: playwrightHandler_def Let_def url_actors lower_CONSTRUCTOR inherited)
qed

text \<open>
  C3. When the first candidate recognized for a request holds the passthrough handler, the
  dispatcher does what \<open>playwrightPassthroughHandler\<close> does and throws nothing: an
  optional log line, then \<open>route.continue()\<close> as its last act, with no handler call and
  no \<open>route.fulfill\<close>.
\<close>

theorem dispatch_passthrough:
  assumes "new_URL (pw_url request) = Some url'"
    and "router this (toLowerCase (pw_method request)) = Some table"
    and "recognize table (pathname url') = Some ((PlaywrightPassthroughHandler, ps) # rest, qps)"
  shows "playwrightHandler this request = (playwrightPassthroughHandler this request, None)
         \<and> last (playwrightPassthroughHandler this request) = RouteContinue
         \<and> (\<forall>status headers' body.
               RouteFulfill status headers' body \<notin> set (playwrightPassthroughHandler this request))
         \<and> (\<forall>r. HandlerCalled r \<notin> set (playwrightPassthroughHandler this request))"
  using assms
  by (auto simp: playwrightHandler_def playwrightPassthroughHandler_def Let_def router_get_table)

lemma url_assets:
  "new_URL ''http://localhost/assets/app.js''
     = Some \<lparr>href = ''http://localhost/assets/app.js'', pathname = ''/assets/app.js'',
             search = []\<rparr>"
  by (simp add: new_URL_def Let_def)

text \<open>One path with an explicit array of one verb: one entry more in that verb's table.\<close>

lemma passthrough_one_path:
  assumes "router this (verb_name verb) = Some table"
  shows "passthrough this [PathArg p, VerbsArg [verb]] =
           (this\<lparr>router := (router this)(verb_name verb \<mapsto>
                      table @ [(getFullPath this p, PlaywrightPassthroughHandler)])\<rparr>, None)"
  using assms by (simp add: passthrough_def passthrough_path_def router_add_table add_def)

lemma movies_getFullPath_assets:
  "getFullPath movies ''/assets/*file'' = ''/assets/*file''"
  by (simp add: getFullPath_def Let_def movies_eq created_fields js_string_defs)

lemma forwarding_state:
  "router (fst (passthrough movies [PathArg ''/assets/*file'', VerbsArg [Get]])) ''get''
     = Some [(''/movies/:id'', MirageHandler example_handler),
             (''/assets/*file'', PlaywrightPassthroughHandler)]"
  "mirageServer (fst (passthrough movies [PathArg ''/assets/*file'', VerbsArg [Get]]))
     = Some example_server"
  using passthrough_one_path [of movies Get _ "''/assets/*file''"]
  by (simp_all add: movies_router movies_getFullPath_assets movies_server)

lemma recognize_assets:
  "recognize [(''/movies/:id'', MirageHandler example_handler),
              (''/assets/*file'', PlaywrightPassthroughHandler)]
     ''/assets/app.js''
   = Some ([(PlaywrightPassthroughHandler, [(''file'', ''app.js'')])], [])"
  by (simp add: recognize_defs)

theorem dispatch_passthrough_witness:
  "router (fst (passthrough movies [PathArg ''/assets/*file'', VerbsArg [Get]])) ''get''
     = Some [(''/movies/:id'', MirageHandler example_handler),
             (''/assets/*file'', PlaywrightPassthroughHandler)]
   \<and> playwrightHandler (fst (passthrough movies [PathArg ''/assets/*file'', VerbsArg [Get]]))
         \<lparr>pw_method = ''GET'', pw_url = ''http://localhost/assets/app.js'',
          pw_allHeaders = [], pw_postData = None\<rparr>
       = ([ConsoleLog ''Mirage: Passthrough request for GET http://localhost/assets/app.js'',
           RouteContinue], None)"
proof -
  let ?forwarding = "fst (passthrough movies [PathArg ''/assets/*file'', VerbsArg [Get]])"
  let ?request = "\<lparr>pw_method = ''GET'', pw_url = ''http://localhost/assets/app.js'',
                    pw_allHeaders = [], pw_postData = None\<rparr>"
  let ?url = "\<lparr>href = ''http://localhost/assets/app.js'', pathname = ''/assets/app.js'',
                search = []\<rparr>"
  let ?table = "[(''/movies/:id'', MirageHandler example_handler),
                 (''/assets/*file'', PlaywrightPassthroughHandler)]"
  have parsed: "new_URL (pw_url ?request) = Some ?url"
    by (simp add: url_assets)
  have table: "router ?forwarding (toLowerCase (pw_method ?request)) = Some ?table"
    by (simp add: lower_GET forwarding_state)
  have found: "recognize ?table (pathname ?url)
                 = Some ((PlaywrightPassthroughHandler, [(''file'', ''app.js'')]) # [], [])"
    by (simp add: recognize_assets)
  have "playwrightPassthroughHandler ?forwarding ?request
     = [ConsoleLog ''Mirage: Passthrough request for GET http://localhost/assets/app.js'',
        RouteContinue]"
    by (simp add: playwrightPassthroughHandler_def forwarding_state example_server_def upper_GET)
  with dispatch_passthrough [OF parsed table found] forwarding_state(1) show ?thesis
    by simp
qed

end
